theory Spec2Isabelle
  imports Main "HOL-Library.Sublist"
begin

section \<open>JavaScript string and array primitives used by src/index.ts\<close>

text \<open>
  Strings are lists of code units. The operations below are the built-ins the handlers
  call on them: \<^verbatim>\<open>includes\<close>, \<^verbatim>\<open>startsWith\<close>, \<^verbatim>\<open>split("::")\<close>, \<^verbatim>\<open>join\<close>,
  \<^verbatim>\<open>replaceAll("::", "/")\<close>, \<^verbatim>\<open>pop\<close>, \<^verbatim>\<open>slice(0, -1)\<close> and the rendering of a value
  inside a template literal.
\<close>

fun js_includes :: "string \<Rightarrow> string \<Rightarrow> bool" where
  "js_includes [] pat = (pat = [])"
| "js_includes (c # cs) pat = (prefix pat (c # cs) \<or> js_includes cs pat)"

definition js_startsWith :: "string \<Rightarrow> string \<Rightarrow> bool" where
  "js_startsWith s pat = prefix pat s"

text \<open>
  \<^verbatim>\<open>s.split("::")\<close>: scan left to right, cut at every non-overlapping occurrence of
  the two-character separator. The first argument accumulates (reversed) the characters of
  the segment being read. The result is never empty: \<^verbatim>\<open>"".split("::")\<close> is \<^verbatim>\<open>[""]\<close>.
\<close>

fun split_colons :: "string \<Rightarrow> string \<Rightarrow> string list" where
  "split_colons cur [] = [rev cur]"
| "split_colons cur [c] = [rev (c # cur)]"
| "split_colons cur (c # d # cs) =
     (if c = CHR '':'' \<and> d = CHR '':'' then rev cur # split_colons [] cs
      else split_colons (c # cur) (d # cs))"

definition js_split :: "string \<Rightarrow> string list" where
  "js_split s = split_colons [] s"

fun js_join :: "string \<Rightarrow> string list \<Rightarrow> string" where
  "js_join sep [] = []"
| "js_join sep [x] = x"
| "js_join sep (x # y # ys) = x @ sep @ js_join sep (y # ys)"

text \<open>\<^verbatim>\<open>s.replaceAll("::", "/")\<close>, again left to right and non-overlapping.\<close>

fun replaceAll_colons :: "string \<Rightarrow> string" where
  "replaceAll_colons [] = []"
| "replaceAll_colons [c] = [c]"
| "replaceAll_colons (c # d # cs) =
     (if c = CHR '':'' \<and> d = CHR '':'' then CHR ''/'' # replaceAll_colons cs
      else c # replaceAll_colons (d # cs))"

text \<open>\<^verbatim>\<open>xs.pop()\<close> gives the last element, or \<^verbatim>\<open>undefined\<close> on an empty array.\<close>

definition js_pop :: "'a list \<Rightarrow> 'a option" where
  "js_pop xs = (if xs = [] then None else Some (last xs))"

text \<open>\<^verbatim>\<open>xs.slice(0, -1)\<close>: everything but the last element.\<close>

definition slice_init :: "'a list \<Rightarrow> 'a list" where
  "slice_init xs = butlast xs"

text \<open>A possibly undefined string inside a template literal.\<close>

definition tmpl :: "string option \<Rightarrow> string" where
  "tmpl v = (case v of None \<Rightarrow> ''undefined'' | Some s \<Rightarrow> s)"

text \<open>The destructuring default \<^verbatim>\<open>version = "latest"\<close>: it applies to an absent field only.\<close>

definition version_default :: "string option \<Rightarrow> string" where
  "version_default v = (case v of None \<Rightarrow> ''latest'' | Some s \<Rightarrow> s)"

section \<open>URL construction\<close>

text \<open>The URL \<^verbatim>\<open>getReadMe\<close> fetches (index.ts, line 217).\<close>

definition getReadMe_url :: "string \<Rightarrow> string option \<Rightarrow> string" where
  "getReadMe_url crate_name version =
     ''https://docs.rs/'' @ crate_name @ ''/'' @ version_default version @ ''/''
       @ crate_name @ ''/index.html''"

text \<open>The URL \<^verbatim>\<open>getItem\<close> fetches (index.ts, lines 257 to 268).\<close>

definition getItem_url :: "string \<Rightarrow> string option \<Rightarrow> string \<Rightarrow> string \<Rightarrow> string" where
  "getItem_url crate_name version item_type item_path =
     (let item_name = js_pop (js_split item_path) in
      if item_type = ''module'' then
        ''https://docs.rs/'' @ crate_name @ ''/'' @ version_default version @ ''/''
          @ replaceAll_colons item_path @ ''/index.html''
      else
        let pathParts = js_split item_path;
            modulePath = js_join ''/'' (slice_init pathParts)
        in ''https://docs.rs/'' @ crate_name @ ''/'' @ version_default version @ ''/''
             @ modulePath @ ''/'' @ item_type @ ''.'' @ tmpl item_name @ ''.html'')"

text \<open>The URL \<^verbatim>\<open>searchInCrate\<close> fetches (index.ts, line 329).\<close>

definition searchInCrate_url :: "string \<Rightarrow> string option \<Rightarrow> string" where
  "searchInCrate_url crate_name version =
     ''https://docs.rs/'' @ crate_name @ ''/'' @ version_default version @ ''/''
       @ crate_name @ ''/all.html''"

section \<open>External collaborators\<close>

text \<open>
  A fetched page is seen only through cheerio selections. An element carries what the
  handlers read from it: its inner markup (\<^verbatim>\<open>.html()\<close>), its text (\<^verbatim>\<open>.text()\<close>) and its
  \<^verbatim>\<open>href\<close> attribute (\<^verbatim>\<open>.attr("href")\<close>, absent when the element has none). A page maps a
  selector to the elements it matches, in document order: it is the function \<^verbatim>\<open>$\<close>
  that \<^verbatim>\<open>cheerio.load\<close> returns.
\<close>

record element =
  elem_html :: string
  elem_text :: string
  elem_href :: "string option"

type_synonym page = "string \<Rightarrow> element list"

text \<open>
  The libraries and runtime built-ins the handlers call, none of which is code of this
  repository, are parameters of the model:
  \<^item> \<open>axios_get\<close>: \<^verbatim>\<open>axios.get(url)\<close> followed by \<^verbatim>\<open>cheerio.load\<close>; \<open>Inl e\<close> when the request
    throws, \<open>e\<close> being the thrown value as a template literal renders it;
  \<^item> \<open>turndown\<close>: \<^verbatim>\<open>turndownService.turndown\<close>, HTML to Markdown;
  \<^item> \<open>toLowerCase\<close> and \<open>trim\<close>: the string methods of the same names.
\<close>

record runtime =
  axios_get :: "string \<Rightarrow> string + page"
  turndown :: "string \<Rightarrow> string"
  toLowerCase :: "string \<Rightarrow> string"
  trim :: "string \<Rightarrow> string"

text \<open>A thrown \<^verbatim>\<open>Error\<close> with its message; a handler returns it on the left.\<close>

datatype error = Error string

text \<open>
  \<^verbatim>\<open>.first()\<close> keeps the first matched element, \<^verbatim>\<open>.html()\<close> is the inner markup of the
  first matched element or \<^verbatim>\<open>null\<close>, and \<^verbatim>\<open>v || ""\<close> replaces \<^verbatim>\<open>null\<close>, \<^verbatim>\<open>undefined\<close> and
  the empty string by the empty string.
\<close>

definition first :: "element list \<Rightarrow> element list" where
  "first els = take 1 els"

definition html :: "element list \<Rightarrow> string option" where
  "html els = (case els of [] \<Rightarrow> None | el # _ \<Rightarrow> Some (elem_html el))"

definition or_empty :: "string option \<Rightarrow> string" where
  "or_empty v = (case v of None \<Rightarrow> [] | Some s \<Rightarrow> s)"

section \<open>getReadMe\<close>

definition getReadMe :: "runtime \<Rightarrow> string \<Rightarrow> string option \<Rightarrow> error + string" where
  "getReadMe rt crate_name version =
     (let url = getReadMe_url crate_name version in
      case axios_get rt url of
        Inl err \<Rightarrow> Inl (Error (''Failed to get README for '' @ crate_name @ '': '' @ err))
      | Inr page \<Rightarrow>
          let mainContent = first (page ''.rustdoc .docblock'');
              notFound = ''# '' @ crate_name
                 @ '' Documentation\<newline>\<newline>No documentation content found at '' @ url;
              htmlContent = or_empty (html mainContent);
              markdownContent = turndown rt htmlContent;
              found = ''# '' @ crate_name @ '' Documentation\<newline>\<newline>'' @ markdownContent
          in if length mainContent = 0 then
               (let alternativeContent = first (page ''.rustdoc-main .item-decl'') in
                if length alternativeContent = 0 then Inr notFound else Inr found)
             else Inr found)"

section \<open>getItem\<close>

text \<open>
  The selector chain of \<^verbatim>\<open>getItem\<close> (index.ts, lines 273 to 294). The first component is
  \<^verbatim>\<open>contentHtml\<close>; the second lists the selectors passed to \<^verbatim>\<open>$\<close>, in the order of the
  calls, so that which selectors a run consults can be stated.
\<close>

definition getItem_extract :: "page \<Rightarrow> string \<times> string list" where
  "getItem_extract page =
     (let mainContentSection = page ''#main-content'' in
      if length mainContentSection > 0 then
        (or_empty (html mainContentSection), [''#main-content''])
      else
        let itemDecl = first (page ''.rustdoc .item-decl'');
            mainContent = first (page ''.rustdoc .docblock'');
            contentHtml = (if length itemDecl > 0 then or_empty (html itemDecl) else [])
        in if length mainContent = 0 then
             (let alternativeContent = first (page ''.rustdoc-main .item-decl'') in
              (if length alternativeContent > 0
               then contentHtml @ or_empty (html alternativeContent) else contentHtml,
               [''#main-content'', ''.rustdoc .item-decl'', ''.rustdoc .docblock'',
                ''.rustdoc-main .item-decl'']))
           else
             (contentHtml @ or_empty (html mainContent),
              [''#main-content'', ''.rustdoc .item-decl'', ''.rustdoc .docblock'']))"

definition getItem :: "runtime \<Rightarrow> string \<Rightarrow> string \<Rightarrow> string \<Rightarrow> string option \<Rightarrow> error + string" where
  "getItem rt crate_name item_type item_path version =
     (let url = getItem_url crate_name version item_type item_path in
      case axios_get rt url of
        Inl err \<Rightarrow>
          Inl (Error (''Failed to get item documentation for '' @ item_path @ '': '' @ err))
      | Inr page \<Rightarrow>
          let contentHtml = fst (getItem_extract page) in
          if contentHtml = [] then
            Inr (''# '' @ item_path @ '' ('' @ item_type
                 @ '')\<newline>\<newline>No documentation content found at '' @ url)
          else
            Inr (''# '' @ item_path @ '' ('' @ item_type
                 @ '')\<newline>\<newline>**Documentation URL:** '' @ url @ ''\<newline>\<newline>''
                 @ turndown rt contentHtml))"

section \<open>searchInCrate\<close>

record indexed_item =
  it_name :: string
  it_type :: string
  it_link :: string

text \<open>The classification of a link target (index.ts, lines 346 to 354).\<close>

definition classify :: "string \<Rightarrow> string" where
  "classify itemLink =
     (if js_includes itemLink ''struct.'' then ''struct''
      else if js_includes itemLink ''trait.'' then ''trait''
      else if js_includes itemLink ''fn.'' then ''function''
      else if js_includes itemLink ''enum.'' then ''enum''
      else if js_includes itemLink ''type.'' then ''type''
      else if js_includes itemLink ''const.'' then ''constant''
      else if js_includes itemLink ''static.'' then ''static''
      else if js_includes itemLink ''macro.'' then ''macro''
      else ''unknown'')"

text \<open>
  \<^verbatim>\<open>!v\<close> on an optional string: true when the argument is absent or the empty string.
\<close>

definition falsy :: "string option \<Rightarrow> bool" where
  "falsy v = (case v of None \<Rightarrow> True | Some s \<Rightarrow> s = [])"

text \<open>The two filters (index.ts, lines 356 and 357).\<close>

definition matchesQuery :: "runtime \<Rightarrow> string option \<Rightarrow> string \<Rightarrow> bool" where
  "matchesQuery rt query itemName =
     (falsy query \<or> query = Some [] \<or>
      js_includes (toLowerCase rt itemName) (toLowerCase rt (or_empty query)))"

definition matchesType :: "runtime \<Rightarrow> string option \<Rightarrow> string \<Rightarrow> string \<Rightarrow> bool" where
  "matchesType rt item_type type itemName =
     (falsy item_type \<or> item_type = Some [] \<or> Some type = item_type \<or>
      js_includes (toLowerCase rt itemName) (toLowerCase rt (or_empty item_type)))"

text \<open>
  The body of the \<^verbatim>\<open>each\<close> callback for one link (index.ts, lines 340 to 365): it
  returns the array \<^verbatim>\<open>items\<close>, with the link's item pushed when the link is kept.
\<close>

definition visit_link ::
  "runtime \<Rightarrow> string \<Rightarrow> string option \<Rightarrow> string option \<Rightarrow> string option \<Rightarrow>
   element \<Rightarrow> indexed_item list \<Rightarrow> indexed_item list" where
  "visit_link rt crate_name query version item_type el items =
     (let itemName = trim rt (elem_text el);
          itemLink = or_empty (elem_href el)
      in if itemName = [] \<or> itemLink = [] then items
         else
           let type = classify itemLink;
               mq = matchesQuery rt query itemName;
               mt = matchesType rt item_type type itemName
           in if mq \<and> mt \<and> type \<noteq> ''unknown'' then
                items @ [\<lparr>it_name = itemName, it_type = type,
                   it_link = (if js_startsWith itemLink ''http'' then itemLink
                              else ''https://docs.rs/'' @ crate_name @ ''/''
                                @ version_default version @ ''/'' @ crate_name @ ''/''
                                @ itemLink)\<rparr>]
              else items)"

fun each_link ::
  "runtime \<Rightarrow> string \<Rightarrow> string option \<Rightarrow> string option \<Rightarrow> string option \<Rightarrow>
   element list \<Rightarrow> indexed_item list \<Rightarrow> indexed_item list" where
  "each_link rt crate_name query version item_type [] items = items"
| "each_link rt crate_name query version item_type (el # els) items =
     each_link rt crate_name query version item_type els
       (visit_link rt crate_name query version item_type el items)"

text \<open>\<^verbatim>\<open>xs.findIndex(p)\<close>: the index of the first element satisfying \<open>p\<close>, or -1.\<close>

fun findIndex :: "('a \<Rightarrow> bool) \<Rightarrow> 'a list \<Rightarrow> int" where
  "findIndex p [] = -1"
| "findIndex p (x # xs) =
     (if p x then 0 else (let r = findIndex p xs in if r < 0 then -1 else r + 1))"

text \<open>The deduplicating filter (index.ts, lines 368 to 370).\<close>

definition uniqueItems :: "indexed_item list \<Rightarrow> indexed_item list" where
  "uniqueItems items =
     map snd (filter
       (\<lambda>(index, item). int index =
          findIndex (\<lambda>i. it_name i = it_name item \<and> it_type i = it_type item) items)
       (enumerate 0 items))"

definition searchInCrate_items ::
  "runtime \<Rightarrow> string \<Rightarrow> string option \<Rightarrow> string option \<Rightarrow> string option \<Rightarrow>
   page \<Rightarrow> indexed_item list" where
  "searchInCrate_items rt crate_name query version item_type page =
     uniqueItems (each_link rt crate_name query version item_type
                    (page ''#main-content a'') [])"

text \<open>A number inside a template literal: its decimal digits.\<close>

fun show_nat :: "nat \<Rightarrow> string" where
  "show_nat n =
     (if n < 10 then [char_of (48 + n)]
      else show_nat (n div 10) @ [char_of (48 + n mod 10)])"

definition render_item :: "indexed_item \<Rightarrow> string" where
  "render_item item =
     ''## '' @ it_name item @ '' ('' @ it_type item @ '')\<newline>\<newline>''
     @ ''**Description:** '' @ it_type item @ ''\<newline>\<newline>''
     @ ''**Link:** [View Documentation]('' @ it_link item @ '')\<newline>\<newline>''
     @ ''---\<newline>''"

definition searchInCrate ::
  "runtime \<Rightarrow> string \<Rightarrow> string option \<Rightarrow> string option \<Rightarrow> string option \<Rightarrow> error + string" where
  "searchInCrate rt crate_name query version item_type =
     (let url = searchInCrate_url crate_name version in
      case axios_get rt url of
        Inl err \<Rightarrow> Inl (Error (''Failed to search items in '' @ crate_name @ '': '' @ err))
      | Inr page \<Rightarrow>
          let uniq = searchInCrate_items rt crate_name query version item_type page;
              searchTerm = (if falsy query then ''all items'' else or_empty query)
          in Inr (''# Search Results for '' @ [CHR 0x22] @ searchTerm @ [CHR 0x22] @ '' in ''
                  @ crate_name
                  @ ''\<newline>\<newline>'' @ ''Found '' @ show_nat (length uniq) @ '' items\<newline>\<newline>''
                  @ (if length uniq = 0 then ''No matching items found.''
                     else js_join ''\<newline>'' (map render_item uniq))))"

section \<open>The specification's formulations\<close>

text \<open>
  The specification describes classification as an ordered table of (pattern, kind)
  pairs scanned top to bottom, the first matching pattern giving the kind and no match
  giving "unknown". The kinds are in the order the specification lists them; the
  patterns are the substrings the source tests.
\<close>

definition kind_table :: "(string \<times> string) list" where
  "kind_table =
     [(''struct.'', ''struct''), (''trait.'', ''trait''), (''fn.'', ''function''),
      (''enum.'', ''enum''), (''type.'', ''type''), (''const.'', ''constant''),
      (''static.'', ''static''), (''macro.'', ''macro'')]"

definition classify_spec :: "string \<Rightarrow> string" where
  "classify_spec target =
     (case find (\<lambda>(pat, kind). js_includes target pat) kind_table of
        None \<Rightarrow> ''unknown''
      | Some (pat, kind) \<Rightarrow> kind)"

text \<open>The identity key of an indexed item: its (name, type) pair.\<close>

definition item_key :: "indexed_item \<Rightarrow> string \<times> string" where
  "item_key item = (it_name item, it_type item)"

text \<open>
  Deduplication as the specification words it: walk the sequence in encounter order and
  keep an item exactly when its key has not been seen before.
\<close>

fun dedup_seen :: "(string \<times> string) list \<Rightarrow> indexed_item list \<Rightarrow> indexed_item list" where
  "dedup_seen seen [] = []"
| "dedup_seen seen (x # xs) =
     (if item_key x \<in> set seen then dedup_seen seen xs
      else x # dedup_seen (item_key x # seen) xs)"

section \<open>Concrete inputs\<close>

text \<open>
  A runtime for concrete runs. On ASCII text \<^verbatim>\<open>toLowerCase\<close> maps A to Z onto a to z and
  \<^verbatim>\<open>trim\<close> strips blanks, tabs and line breaks at both ends; the pages below carry
  markup-free ASCII text, which Turndown returns unchanged.
\<close>

definition lower_char :: "char \<Rightarrow> char" where
  "lower_char c =
     (case map_of (zip ''ABCDEFGHIJKLMNOPQRSTUVWXYZ'' ''abcdefghijklmnopqrstuvwxyz'') c of
        None \<Rightarrow> c
      | Some d \<Rightarrow> d)"

definition is_blank :: "char \<Rightarrow> bool" where
  "is_blank c = (c = CHR '' '' \<or> c = CHR 0x09 \<or> c = CHR 0x0A \<or> c = CHR 0x0D)"

definition ascii_trim :: "string \<Rightarrow> string" where
  "ascii_trim s = rev (dropWhile is_blank (rev (dropWhile is_blank s)))"

definition ascii_runtime :: "(string \<Rightarrow> string + page) \<Rightarrow> runtime" where
  "ascii_runtime fetch =
     \<lparr>axios_get = fetch, turndown = (\<lambda>h. h), toLowerCase = map lower_char,
      trim = ascii_trim\<rparr>"

definition plain :: "string \<Rightarrow> element" where
  "plain s = \<lparr>elem_html = s, elem_text = s, elem_href = None\<rparr>"

definition anchor :: "string \<Rightarrow> string \<Rightarrow> element" where
  "anchor s target = \<lparr>elem_html = s, elem_text = s, elem_href = Some target\<rparr>"

text \<open>
  A crate page with no description block, whose declaration sits in the secondary
  container: \<^verbatim>\<open><div class="rustdoc-main"><pre class="item-decl">pub struct X;</pre></div>\<close>.
\<close>

definition page_alt_only :: page where
  "page_alt_only sel =
     (if sel = ''.rustdoc-main .item-decl'' then [plain ''pub struct X;''] else [])"

text \<open>
  An item page whose primary container is present and empty, with the description
  outside it:
  \<^verbatim>\<open><body class="rustdoc"><section id="main-content"></section><div class="docblock">Docs</div></body>\<close>.
\<close>

definition page_empty_main :: page where
  "page_empty_main sel =
     (if sel = ''#main-content'' then [plain []]
      else if sel = ''.rustdoc .docblock'' then [plain ''Docs'']
      else [])"

text \<open>
  An item page without primary container and without description block, with one
  declaration directly in the body and one in the secondary container:
  \<^verbatim>\<open><body class="rustdoc"><pre class="item-decl">pub fn f()</pre><div class="rustdoc-main"><pre class="item-decl">pub fn g()</pre></div></body>\<close>.
\<close>

definition page_decl_alt :: page where
  "page_decl_alt sel =
     (if sel = ''.rustdoc .item-decl'' then [plain ''pub fn f()'', plain ''pub fn g()'']
      else if sel = ''.rustdoc-main .item-decl'' then [plain ''pub fn g()'']
      else [])"

text \<open>An item page with a full primary container, and one with the two fallback blocks.\<close>

definition page_full :: page where
  "page_full sel =
     (if sel = ''#main-content'' then [plain ''Struct Mutex'']
      else if sel = ''.rustdoc .docblock'' then [plain ''Docs'']
      else [])"

definition page_blocks :: page where
  "page_blocks sel =
     (if sel = ''.rustdoc .item-decl'' then [plain ''pub struct Mutex'']
      else if sel = ''.rustdoc .docblock'' then [plain ''A mutual exclusion lock'']
      else if sel = ''.rustdoc-main .item-decl'' then [plain ''pub struct Other'']
      else [])"

text \<open>
  An item page without primary container whose declaration and description both sit in
  the secondary container, so that the declaration is matched by both declaration
  selectors:
  \<^verbatim>\<open><body class="rustdoc"><div class="rustdoc-main"><pre class="item-decl">pub fn g()</pre><div class="docblock">Docs</div></div></body>\<close>.
\<close>

definition page_nested :: page where
  "page_nested sel =
     (if sel = ''.rustdoc .item-decl'' then [plain ''pub fn g()'']
      else if sel = ''.rustdoc .docblock'' then [plain ''Docs'']
      else if sel = ''.rustdoc-main .item-decl'' then [plain ''pub fn g()'']
      else [])"

text \<open>
  An index page: two links named Mutex to different struct pages, a module link, a
  function link, and a link with blank text.
\<close>

definition page_index :: page where
  "page_index sel =
     (if sel = ''#main-content a'' then
        [anchor ''Mutex'' ''sync/struct.Mutex.html'',
         anchor ''sync'' ''sync/index.html'',
         anchor '' spawn '' ''fn.spawn.html'',
         anchor ''Mutex'' ''lock/struct.Mutex.html'',
         anchor ''  '' ''trait.Hidden.html'']
      else [])"

section \<open>Splitting a path that was joined from segments\<close>

lemma split_colons_nonempty: "split_colons cur s \<noteq> []"
  by (induction cur s rule: split_colons.induct) auto

lemma split_colons_skip:
  "c \<noteq> CHR '':'' \<Longrightarrow> split_colons cur (c # xs) = split_colons (c # cur) xs"
  by (cases xs) auto

lemma split_colons_segment:
  "CHR '':'' \<notin> set s \<Longrightarrow> split_colons cur (s @ rest) = split_colons (rev s @ cur) rest"
proof (induction s arbitrary: cur)
  case Nil
  show ?case by simp
next
  case (Cons c s)
  from Cons.prems have c: "c \<noteq> CHR '':''" and s: "CHR '':'' \<notin> set s" by auto
  have "split_colons cur ((c # s) @ rest) = split_colons (c # cur) (s @ rest)"
    using split_colons_skip [OF c] by simp
  also have "\<dots> = split_colons (rev s @ c # cur) rest"
    using Cons.IH [OF s] .
  finally show ?case by simp
qed

lemma split_colons_join:
  "segs \<noteq> [] \<Longrightarrow> \<forall>s \<in> set segs. CHR '':'' \<notin> set s \<Longrightarrow>
   split_colons cur (js_join ''::'' segs) = (rev cur @ hd segs) # tl segs"
proof (induction segs arbitrary: cur)
  case Nil
  then show ?case by simp
next
  case (Cons x xs)
  have x: "CHR '':'' \<notin> set x" using Cons.prems by simp
  show ?case
  proof (cases xs)
    case Nil
    have "split_colons cur (x @ []) = split_colons (rev x @ cur) []"
      using split_colons_segment [OF x] .
    with Nil show ?thesis by simp
  next
    case (Cons y ys)
    have rest: "\<forall>s \<in> set xs. CHR '':'' \<notin> set s" using Cons.prems by simp
    have ne: "xs \<noteq> []" using Cons by simp
    have "split_colons cur (js_join ''::'' (x # xs))
          = split_colons (rev x @ cur) (''::'' @ js_join ''::'' xs)"
      using split_colons_segment [OF x] Cons by simp
    also have "\<dots> = rev (rev x @ cur) # split_colons [] (js_join ''::'' xs)"
      by simp
    also have "split_colons [] (js_join ''::'' xs) = (rev [] @ hd xs) # tl xs"
      using Cons.IH [OF ne rest] .
    finally show ?thesis using ne by simp
  qed
qed

lemma js_split_join:
  "segs \<noteq> [] \<Longrightarrow> \<forall>s \<in> set segs. CHR '':'' \<notin> set s \<Longrightarrow> js_split (js_join ''::'' segs) = segs"
  using split_colons_join [of segs "[]"] by (simp add: js_split_def)

lemma split_colons_single:
  "length (split_colons cur s) = 1 \<Longrightarrow> split_colons cur s = [rev cur @ s]"
proof (induction cur s rule: split_colons.induct)
  case (1 cur)
  show ?case by simp
next
  case (2 cur c)
  show ?case by simp
next
  case (3 cur c d cs)
  show ?case
  proof (cases "c = CHR '':'' \<and> d = CHR '':''")
    case True
    with "3.prems" have "split_colons [] cs = []" by simp
    then show ?thesis using split_colons_nonempty by blast
  next
    case False
    with "3.prems" "3.IH"(2) show ?thesis by auto
  qed
qed

section \<open>Substring search\<close>

lemma js_includes_sublist: "js_includes s pat = sublist pat s"
  by (induction s) (auto simp: sublist_Cons_right)

lemma js_includes_infix: "js_includes (pre @ pat @ post) pat"
  by (simp add: js_includes_sublist)

section \<open>URL resolution for items\<close>

text \<open>
  Claim C4. For an item kind other than "module", and an item path made of one or more
  segments joined with "::" (no segment containing a colon), \<^verbatim>\<open>getItem\<close> fetches
  \<^verbatim>\<open>https://docs.rs/{crate}/{version}/{modulePath}/{kind}.{simpleName}.html\<close>, where the
  module path is all segments but the last joined with "/" and the simple name is the
  last segment. For crate tokio, version 1.0.0, kind struct and path tokio::sync::Mutex
  the URL is \<^verbatim>\<open>https://docs.rs/tokio/1.0.0/tokio/sync/struct.Mutex.html\<close>.
\<close>

theorem getItem_url_non_module:
  "(segs \<noteq> [] \<and> (\<forall>s \<in> set segs. CHR '':'' \<notin> set s) \<and> item_type \<noteq> ''module'' \<longrightarrow>
      getItem_url crate_name version item_type (js_join ''::'' segs) =
        ''https://docs.rs/'' @ crate_name @ ''/'' @ version_default version @ ''/''
          @ js_join ''/'' (butlast segs) @ ''/'' @ item_type @ ''.'' @ last segs @ ''.html'')
   \<and> getItem_url ''tokio'' (Some ''1.0.0'') ''struct'' ''tokio::sync::Mutex'' =
        ''https://docs.rs/tokio/1.0.0/tokio/sync/struct.Mutex.html''"
proof (intro conjI impI)
  assume h: "segs \<noteq> [] \<and> (\<forall>s \<in> set segs. CHR '':'' \<notin> set s) \<and> item_type \<noteq> ''module''"
  then have "js_split (js_join ''::'' segs) = segs"
    using js_split_join by blast
  with h show "getItem_url crate_name version item_type (js_join ''::'' segs) =
        ''https://docs.rs/'' @ crate_name @ ''/'' @ version_default version @ ''/''
          @ js_join ''/'' (butlast segs) @ ''/'' @ item_type @ ''.'' @ last segs @ ''.html''"
    by (simp add: getItem_url_def js_pop_def slice_init_def tmpl_def)
next
  show "getItem_url ''tokio'' (Some ''1.0.0'') ''struct'' ''tokio::sync::Mutex'' =
        ''https://docs.rs/tokio/1.0.0/tokio/sync/struct.Mutex.html''"
    by (simp add: getItem_url_def js_pop_def slice_init_def tmpl_def js_split_def
        version_default_def)
qed

theorem getItem_url_non_module_witness:
  "getItem_url ''serde'' None ''trait'' ''serde::ser::Serialize'' =
     ''https://docs.rs/serde/latest/serde/ser/trait.Serialize.html''"
  using getItem_url_non_module
    [of "[''serde'', ''ser'', ''Serialize'']" "''trait''" "''serde''" None]
  by (simp add: version_default_def)

text \<open>
  The statement of claim C5 fails on the code: for the one-segment path Serialize the
  leaf file does not sit directly under the crate root; the URL has two slashes before it.
\<close>

theorem single_segment_counterexample:
  "getItem_url ''serde'' None ''trait'' ''Serialize'' =
     ''https://docs.rs/serde/latest//trait.Serialize.html'' \<and>
   getItem_url ''serde'' None ''trait'' ''Serialize'' \<noteq>
     ''https://docs.rs/serde/latest/trait.Serialize.html''"
  by (simp add: getItem_url_def js_pop_def slice_init_def tmpl_def js_split_def
        version_default_def)

text \<open>
  Claim C5, amended. For an item kind other than "module" and an item path of exactly
  one segment, the module-path prefix is the empty string and the URL template still
  writes both slashes around it: the URL is
  \<^verbatim>\<open>https://docs.rs/{crate}/{version}//{kind}.{simpleName}.html\<close>, with an empty path
  segment between the version and the leaf file.
\<close>

theorem getItem_url_single_segment:
  "length (js_split item_path) = 1 \<Longrightarrow> item_type \<noteq> ''module'' \<Longrightarrow>
   getItem_url crate_name version item_type item_path =
     ''https://docs.rs/'' @ crate_name @ ''/'' @ version_default version @ ''//''
       @ item_type @ ''.'' @ item_path @ ''.html''"
proof -
  assume len: "length (js_split item_path) = 1" and ty: "item_type \<noteq> ''module''"
  have "js_split item_path = [item_path]"
    using split_colons_single [of "[]" item_path] len by (simp add: js_split_def)
  with ty show ?thesis
    by (simp add: getItem_url_def js_pop_def slice_init_def tmpl_def)
qed

theorem getItem_url_single_segment_witness:
  "length (js_split ''Serialize'') = 1 \<and>
   getItem_url ''serde'' (Some ''1.0.0'') ''trait'' ''Serialize'' =
     ''https://docs.rs/serde/1.0.0//trait.Serialize.html''"
proof -
  have len: "length (js_split ''Serialize'') = 1" by (simp add: js_split_def)
  have ty: "''trait'' \<noteq> ''module''" by simp
  show ?thesis
    using len getItem_url_single_segment [OF len ty, of "''serde''" "Some ''1.0.0''"]
    by (simp add: version_default_def)
qed

section \<open>The empty fragment\<close>

text \<open>
  \<^verbatim>\<open>getItem\<close> answers an empty fragment with the not-found sentence and the URL, and
  \<^verbatim>\<open>getReadMe\<close> does so when neither of its two selectors matches.
\<close>

lemma getItem_empty_fragment:
  "axios_get rt (getItem_url crate_name version item_type item_path) = Inr page \<Longrightarrow>
   fst (getItem_extract page) = [] \<Longrightarrow>
   getItem rt crate_name item_type item_path version =
     Inr (''# '' @ item_path @ '' ('' @ item_type
          @ '')\<newline>\<newline>No documentation content found at ''
          @ getItem_url crate_name version item_type item_path)"
  by (simp add: getItem_def)

lemma getReadMe_no_selector:
  "axios_get rt (getReadMe_url crate_name version) = Inr page \<Longrightarrow>
   page ''.rustdoc .docblock'' = [] \<Longrightarrow> page ''.rustdoc-main .item-decl'' = [] \<Longrightarrow>
   getReadMe rt crate_name version =
     Inr (''# '' @ crate_name @ '' Documentation\<newline>\<newline>No documentation content found at ''
          @ getReadMe_url crate_name version)"
  by (simp add: getReadMe_def first_def)

text \<open>
  Claim C1 asks for the not-found sentence whenever the fragment is empty, also in the
  \<^verbatim>\<open>getReadMe\<close> branch where the description block is absent and the alternate
  declaration selector matches. In that branch the code reads the alternate selection
  only for its length and renders the description block, which is absent: the fragment
  is empty and the payload is the heading followed by the rendering of the empty string,
  without the not-found sentence.
\<close>

theorem getReadMe_alternate_only:
  "getReadMe (rt\<lparr>axios_get := \<lambda>url. Inr page_alt_only\<rparr>) ''serde'' None =
     Inr (''# serde Documentation\<newline>\<newline>'' @ turndown rt []) \<and>
   getReadMe (ascii_runtime (\<lambda>url. Inr page_alt_only)) ''serde'' None =
     Inr ''# serde Documentation\<newline>\<newline>'' \<and>
   \<not> js_includes ''# serde Documentation\<newline>\<newline>'' ''No documentation content found''"
  by (simp add: getReadMe_def page_alt_only_def first_def html_def or_empty_def plain_def
      ascii_runtime_def)

section \<open>The selector chain of getItem\<close>

text \<open>
  The statement of claim C2 fails on the code: a primary container that is present with
  empty inner markup still ends the chain. The description block of the page is never
  consulted and the fragment is empty.
\<close>

theorem main_content_empty_counterexample:
  "page_empty_main ''#main-content'' \<noteq> [] \<and>
   html (page_empty_main ''#main-content'') = Some [] \<and>
   page_empty_main ''.rustdoc .docblock'' = [plain ''Docs''] \<and>
   getItem_extract page_empty_main = ([], [''#main-content'']) \<and>
   ''.rustdoc .item-decl'' \<notin> set (snd (getItem_extract page_empty_main)) \<and>
   ''.rustdoc .docblock'' \<notin> set (snd (getItem_extract page_empty_main))"
  by (simp add: page_empty_main_def getItem_extract_def html_def or_empty_def plain_def)

text \<open>
  Claim C2, amended. The primary content container \<^verbatim>\<open>#main-content\<close> ends the selector
  chain exactly when it is present, whether or not its inner markup is empty: if it is
  present, the inner markup of its first element is the whole fragment and no other
  selector is consulted; if it is absent, the declaration and the description selectors
  are consulted.
\<close>

theorem main_content_short_circuit:
  "(page ''#main-content'' \<noteq> [] \<longrightarrow>
      getItem_extract page = (elem_html (hd (page ''#main-content'')), [''#main-content'']))
   \<and> (page ''#main-content'' = [] \<longrightarrow>
      ''.rustdoc .item-decl'' \<in> set (snd (getItem_extract page)) \<and>
      ''.rustdoc .docblock'' \<in> set (snd (getItem_extract page)))"
  by (cases "page ''#main-content''")
     (simp_all add: getItem_extract_def html_def or_empty_def Let_def)

theorem main_content_short_circuit_witness:
  "getItem_extract page_full = (''Struct Mutex'', [''#main-content'']) \<and>
   getItem_extract page_empty_main = ([], [''#main-content'']) \<and>
   page_blocks ''#main-content'' = [] \<and>
   ''.rustdoc .item-decl'' \<in> set (snd (getItem_extract page_blocks)) \<and>
   ''.rustdoc .docblock'' \<in> set (snd (getItem_extract page_blocks))"
  using main_content_short_circuit [of page_full] main_content_short_circuit [of page_empty_main]
    main_content_short_circuit [of page_blocks]
  by (simp add: page_full_def page_empty_main_def page_blocks_def plain_def)

text \<open>
  The statement of claim C3 fails on the code. On a page whose declaration block is
  found and whose description block is not, the alternate selector is consulted and its
  content is appended to the declaration. And on a page whose description block is
  found, the markup of the element the alternate selector matches can still be part of
  the fragment, since that element is also the first match of the declaration selector.
\<close>

theorem alternate_with_declaration_counterexample:
  "page_decl_alt ''.rustdoc .item-decl'' \<noteq> [] \<and>
   page_decl_alt ''.rustdoc-main .item-decl'' = [plain ''pub fn g()''] \<and>
   ''.rustdoc-main .item-decl'' \<in> set (snd (getItem_extract page_decl_alt)) \<and>
   fst (getItem_extract page_decl_alt) = ''pub fn f()pub fn g()'' \<and>
   page_nested ''.rustdoc .docblock'' \<noteq> [] \<and>
   page_nested ''.rustdoc-main .item-decl'' = [plain ''pub fn g()''] \<and>
   fst (getItem_extract page_nested) = ''pub fn g()Docs''"
  by (simp add: page_decl_alt_def page_nested_def getItem_extract_def html_def or_empty_def
      plain_def first_def)

text \<open>
  Claim C3, amended. The alternate declaration selector \<^verbatim>\<open>.rustdoc-main .item-decl\<close> is
  consulted exactly when the primary container is absent and the description block
  \<^verbatim>\<open>.rustdoc .docblock\<close> was not found, whether or not the declaration block
  \<^verbatim>\<open>.rustdoc .item-decl\<close> was found; the fragment is then the inner markup of the
  declaration block, if found, followed by the inner markup of the alternate block, if
  it matches. Whenever the description block is found (or the primary container is
  present) the alternate selector is not consulted and the fragment does not depend on
  what it matches; with the container absent and the description found, the fragment is
  the declaration's markup, if found, followed by the description's.
\<close>

theorem alternate_selector_guard:
  "(''.rustdoc-main .item-decl'' \<in> set (snd (getItem_extract page)) \<longleftrightarrow>
      page ''#main-content'' = [] \<and> page ''.rustdoc .docblock'' = [])
   \<and> (page ''#main-content'' = [] \<and> page ''.rustdoc .docblock'' = [] \<longrightarrow>
        fst (getItem_extract page)
        = or_empty (html (page ''.rustdoc .item-decl''))
          @ or_empty (html (page ''.rustdoc-main .item-decl'')))
   \<and> (page ''#main-content'' \<noteq> [] \<or> page ''.rustdoc .docblock'' \<noteq> [] \<longrightarrow>
        fst (getItem_extract (page(''.rustdoc-main .item-decl'' := alt)))
        = fst (getItem_extract page))
   \<and> (page ''#main-content'' = [] \<and> page ''.rustdoc .docblock'' \<noteq> [] \<longrightarrow>
        fst (getItem_extract page)
        = or_empty (html (page ''.rustdoc .item-decl''))
          @ elem_html (hd (page ''.rustdoc .docblock'')))"
proof (intro conjI)
  show "''.rustdoc-main .item-decl'' \<in> set (snd (getItem_extract page)) \<longleftrightarrow>
      page ''#main-content'' = [] \<and> page ''.rustdoc .docblock'' = []"
    by (simp add: getItem_extract_def Let_def first_def)
  show "page ''#main-content'' = [] \<and> page ''.rustdoc .docblock'' = [] \<longrightarrow>
        fst (getItem_extract page)
        = or_empty (html (page ''.rustdoc .item-decl''))
          @ or_empty (html (page ''.rustdoc-main .item-decl''))"
    by (cases "page ''.rustdoc .item-decl''"; cases "page ''.rustdoc-main .item-decl''")
       (simp_all add: getItem_extract_def Let_def first_def html_def or_empty_def)
  show "page ''#main-content'' \<noteq> [] \<or> page ''.rustdoc .docblock'' \<noteq> [] \<longrightarrow>
        fst (getItem_extract (page(''.rustdoc-main .item-decl'' := alt)))
        = fst (getItem_extract page)"
    by (simp add: getItem_extract_def Let_def first_def)
  show "page ''#main-content'' = [] \<and> page ''.rustdoc .docblock'' \<noteq> [] \<longrightarrow>
        fst (getItem_extract page)
        = or_empty (html (page ''.rustdoc .item-decl''))
          @ elem_html (hd (page ''.rustdoc .docblock''))"
    by (cases "page ''.rustdoc .docblock''"; cases "page ''.rustdoc .item-decl''")
       (simp_all add: getItem_extract_def Let_def first_def html_def or_empty_def)
qed

theorem alternate_selector_guard_witness:
  "''.rustdoc-main .item-decl'' \<notin> set (snd (getItem_extract page_blocks)) \<and>
   fst (getItem_extract page_blocks) = ''pub struct MutexA mutual exclusion lock'' \<and>
   fst (getItem_extract (page_blocks(''.rustdoc-main .item-decl'' := []))) =
     ''pub struct MutexA mutual exclusion lock'' \<and>
   ''.rustdoc-main .item-decl'' \<in> set (snd (getItem_extract page_decl_alt)) \<and>
   fst (getItem_extract page_decl_alt) = ''pub fn f()pub fn g()'' \<and>
   fst (getItem_extract page_alt_only) = ''pub struct X;'' \<and>
   fst (getItem_extract page_nested) = ''pub fn g()Docs'' \<and>
   fst (getItem_extract (page_nested(''.rustdoc-main .item-decl'' := []))) = ''pub fn g()Docs''"
  using alternate_selector_guard [of page_blocks "[]"]
    alternate_selector_guard [of page_decl_alt "[]"]
    alternate_selector_guard [of page_alt_only "[]"]
    alternate_selector_guard [of page_nested "[]"]
  by (simp add: page_blocks_def page_decl_alt_def page_alt_only_def page_nested_def plain_def
      html_def or_empty_def)

section \<open>Deduplication\<close>

lemma findIndex_bounds: "- 1 \<le> findIndex p xs \<and> findIndex p xs < int (length xs)"
  by (induction xs) (auto simp: Let_def)

lemma findIndex_append_hit: "\<exists>x \<in> set pre. p x \<Longrightarrow> findIndex p (pre @ ys) = findIndex p pre"
proof (induction pre)
  case Nil
  then show ?case by simp
next
  case (Cons a pre)
  show ?case
  proof (cases "p a")
    case True
    then show ?thesis by simp
  next
    case False
    with Cons.prems have "\<exists>x \<in> set pre. p x" by auto
    then have "findIndex p (pre @ ys) = findIndex p pre" by (rule Cons.IH)
    with False show ?thesis by simp
  qed
qed

lemma findIndex_append_miss:
  "\<forall>x \<in> set pre. \<not> p x \<Longrightarrow> p y \<Longrightarrow> findIndex p (pre @ y # ys) = int (length pre)"
  by (induction pre) (auto simp: Let_def)

text \<open>
  An element satisfying the predicate sits at the index \<^verbatim>\<open>findIndex\<close> returns exactly
  when nothing before it satisfies the predicate.
\<close>

lemma findIndex_first_iff:
  assumes "p y"
  shows "(int (length pre) = findIndex p (pre @ y # ys)) = (\<forall>x \<in> set pre. \<not> p x)"
proof (cases "\<exists>x \<in> set pre. p x")
  case True
  then have "findIndex p (pre @ y # ys) = findIndex p pre"
    by (rule findIndex_append_hit)
  moreover have "findIndex p pre < int (length pre)"
    using findIndex_bounds [of p pre] by simp
  ultimately show ?thesis using True by auto
next
  case False
  then have "findIndex p (pre @ y # ys) = int (length pre)"
    using findIndex_append_miss [of pre p y ys] assms by blast
  with False show ?thesis by auto
qed

lemma dedup_seen_cong: "set s1 = set s2 \<Longrightarrow> dedup_seen s1 xs = dedup_seen s2 xs"
proof (induction xs arbitrary: s1 s2)
  case Nil
  show ?case by simp
next
  case (Cons x xs)
  have "set (item_key x # s1) = set (item_key x # s2)" using Cons.prems by simp
  then have "dedup_seen (item_key x # s1) xs = dedup_seen (item_key x # s2) xs"
    by (rule Cons.IH)
  moreover have "dedup_seen s1 xs = dedup_seen s2 xs"
    using Cons.prems by (rule Cons.IH)
  ultimately show ?case using Cons.prems by simp
qed

text \<open>
  The index filter of the source, run on the part \<open>xs\<close> of the array that follows \<open>pre\<close>,
  keeps what the walk with a set of seen keys keeps.
\<close>

lemma unique_filter_dedup:
  "map snd (filter
      (\<lambda>(index, item). int index =
         findIndex (\<lambda>i. it_name i = it_name item \<and> it_type i = it_type item) (pre @ xs))
      (enumerate (length pre) xs))
   = dedup_seen (map item_key pre) xs"
proof (induction xs arbitrary: pre)
  case Nil
  show ?case by simp
next
  case (Cons x xs)
  let ?p = "\<lambda>i. it_name i = it_name x \<and> it_type i = it_type x"
  have head: "(int (length pre) = findIndex ?p (pre @ x # xs))
              = (item_key x \<notin> set (map item_key pre))"
  proof -
    have "(\<forall>y \<in> set pre. \<not> ?p y) = (item_key x \<notin> set (map item_key pre))"
      by (auto simp: item_key_def image_iff)
    then show ?thesis using findIndex_first_iff [of ?p x pre xs] by simp
  qed
  have tail: "map snd (filter
      (\<lambda>(index, item). int index =
         findIndex (\<lambda>i. it_name i = it_name item \<and> it_type i = it_type item) (pre @ x # xs))
      (enumerate (Suc (length pre)) xs))
   = dedup_seen (map item_key (pre @ [x])) xs"
    using Cons.IH [of "pre @ [x]"] by simp
  show ?case
  proof (cases "item_key x \<in> set (map item_key pre)")
    case True
    then have "set (map item_key (pre @ [x])) = set (map item_key pre)" by auto
    then have "dedup_seen (map item_key (pre @ [x])) xs = dedup_seen (map item_key pre) xs"
      by (rule dedup_seen_cong)
    with True head tail show ?thesis by simp
  next
    case False
    have "set (map item_key (pre @ [x])) = set (item_key x # map item_key pre)" by auto
    then have "dedup_seen (map item_key (pre @ [x])) xs
               = dedup_seen (item_key x # map item_key pre) xs"
      by (rule dedup_seen_cong)
    with False head tail show ?thesis by simp
  qed
qed

lemma uniqueItems_dedup: "uniqueItems items = dedup_seen [] items"
  using unique_filter_dedup [of "[]" items] by (simp add: uniqueItems_def)

lemma dedup_seen_subseq: "subseq (dedup_seen seen xs) xs"
  by (induction xs arbitrary: seen) auto

lemma dedup_seen_fresh: "x \<in> set (dedup_seen seen xs) \<Longrightarrow> item_key x \<notin> set seen"
proof (induction xs arbitrary: seen)
  case Nil
  then show ?case by simp
next
  case (Cons a xs)
  show ?case
  proof (cases "item_key a \<in> set seen")
    case True
    with Cons.prems have "x \<in> set (dedup_seen seen xs)" by simp
    then show ?thesis by (rule Cons.IH)
  next
    case False
    with Cons.prems have "x = a \<or> x \<in> set (dedup_seen (item_key a # seen) xs)" by simp
    then show ?thesis
    proof
      assume "x = a"
      with False show ?thesis by simp
    next
      assume "x \<in> set (dedup_seen (item_key a # seen) xs)"
      then have "item_key x \<notin> set (item_key a # seen)" by (rule Cons.IH)
      then show ?thesis by simp
    qed
  qed
qed

lemma dedup_seen_distinct: "distinct (map item_key (dedup_seen seen xs))"
proof (induction xs arbitrary: seen)
  case Nil
  show ?case by simp
next
  case (Cons x xs)
  have "item_key x \<notin> item_key ` set (dedup_seen (item_key x # seen) xs)"
  proof
    assume "item_key x \<in> item_key ` set (dedup_seen (item_key x # seen) xs)"
    then obtain y where y: "y \<in> set (dedup_seen (item_key x # seen) xs)"
      and k: "item_key y = item_key x" by auto
    from y have "item_key y \<notin> set (item_key x # seen)" by (rule dedup_seen_fresh)
    with k show False by simp
  qed
  with Cons.IH show ?case by simp
qed

lemma dedup_seen_find:
  "find (\<lambda>y. item_key y = k) (dedup_seen seen xs)
   = (if k \<in> set seen then None else find (\<lambda>y. item_key y = k) xs)"
  by (induction xs arbitrary: seen) auto

lemma uniqueItems_subset: "set (uniqueItems items) \<subseteq> set items"
  using dedup_seen_subseq [of "[]" items] list_emb_set [of "(=)" "dedup_seen [] items" items]
  by (auto simp: uniqueItems_dedup)

text \<open>The items collected from the index page used in the concrete runs below.\<close>

lemma items_index:
  "each_link (ascii_runtime (\<lambda>u. Inr page_index)) ''tokio'' None None None
     (page_index ''#main-content a'') [] =
   [\<lparr>it_name = ''Mutex'', it_type = ''struct'',
     it_link = ''https://docs.rs/tokio/latest/tokio/sync/struct.Mutex.html''\<rparr>,
    \<lparr>it_name = ''spawn'', it_type = ''function'',
     it_link = ''https://docs.rs/tokio/latest/tokio/fn.spawn.html''\<rparr>,
    \<lparr>it_name = ''Mutex'', it_type = ''struct'',
     it_link = ''https://docs.rs/tokio/latest/tokio/lock/struct.Mutex.html''\<rparr>]"
  by (simp add: page_index_def anchor_def visit_link_def ascii_runtime_def ascii_trim_def
      is_blank_def or_empty_def classify_def matchesQuery_def matchesType_def falsy_def
      js_startsWith_def version_default_def Let_def)

text \<open>
  Claim C7. The items \<^verbatim>\<open>searchInCrate\<close> returns are the surviving items deduplicated by
  the (name, type) key: they are a subsequence of the surviving items (encounter order
  is kept), no two of them share a key, and for every surviving item the returned item
  with its key is the first surviving item with that key, whatever the link targets.
\<close>

theorem uniqueItems_first_occurrence:
  "subseq (uniqueItems items) items \<and>
   distinct (map item_key (uniqueItems items)) \<and>
   (\<forall>x \<in> set items.
      find (\<lambda>y. item_key y = item_key x) (uniqueItems items)
      = find (\<lambda>y. item_key y = item_key x) items) \<and>
   searchInCrate_items rt crate_name query version item_type page =
     uniqueItems (each_link rt crate_name query version item_type (page ''#main-content a'') [])"
  by (simp add: uniqueItems_dedup dedup_seen_subseq dedup_seen_distinct dedup_seen_find
      searchInCrate_items_def)

theorem uniqueItems_first_occurrence_witness:
  "searchInCrate_items (ascii_runtime (\<lambda>u. Inr page_index)) ''tokio'' None None None page_index =
   [\<lparr>it_name = ''Mutex'', it_type = ''struct'',
     it_link = ''https://docs.rs/tokio/latest/tokio/sync/struct.Mutex.html''\<rparr>,
    \<lparr>it_name = ''spawn'', it_type = ''function'',
     it_link = ''https://docs.rs/tokio/latest/tokio/fn.spawn.html''\<rparr>]"
  using uniqueItems_first_occurrence [of
      "each_link (ascii_runtime (\<lambda>u. Inr page_index)) ''tokio'' None None None
         (page_index ''#main-content a'') []"
      "ascii_runtime (\<lambda>u. Inr page_index)" "''tokio''" None None None page_index]
  by (simp add: items_index uniqueItems_def)

section \<open>Classification and filters\<close>

lemma classify_table: "classify target = classify_spec target"
  by (simp add: classify_def classify_spec_def kind_table_def)

lemma visit_link_known:
  "\<forall>it \<in> set items. it_type it \<noteq> ''unknown'' \<Longrightarrow>
   \<forall>it \<in> set (visit_link rt crate_name query version item_type el items).
     it_type it \<noteq> ''unknown''"
  by (simp add: visit_link_def Let_def)

lemma each_link_known:
  "\<forall>it \<in> set items. it_type it \<noteq> ''unknown'' \<Longrightarrow>
   \<forall>it \<in> set (each_link rt crate_name query version item_type els items).
     it_type it \<noteq> ''unknown''"
proof (induction els arbitrary: items)
  case Nil
  then show ?case by simp
next
  case (Cons el els)
  have "\<forall>it \<in> set (visit_link rt crate_name query version item_type el items).
          it_type it \<noteq> ''unknown''"
    using Cons.prems by (rule visit_link_known)
  then show ?case using Cons.IH by simp
qed

text \<open>
  Claim C6. The type of a link is a function of its target alone: the kind of the first
  pattern of the ordered table struct, trait, function, enum, type, constant, static,
  macro that occurs in the target, and "unknown" when none occurs. No item of type
  "unknown" is among the items \<^verbatim>\<open>searchInCrate\<close> returns, whatever the name and type
  filters are.
\<close>

theorem classify_order_no_unknown:
  "classify target = classify_spec target \<and>
   (\<forall>it \<in> set (searchInCrate_items rt crate_name query version item_type page).
      it_type it \<noteq> ''unknown'')"
proof
  show "classify target = classify_spec target" by (rule classify_table)
  have "\<forall>it \<in> set (each_link rt crate_name query version item_type
                     (page ''#main-content a'') []).
          it_type it \<noteq> ''unknown''"
    by (rule each_link_known) simp
  then show "\<forall>it \<in> set (searchInCrate_items rt crate_name query version item_type page).
      it_type it \<noteq> ''unknown''"
    using uniqueItems_subset unfolding searchInCrate_items_def by blast
qed

theorem classify_order_no_unknown_witness:
  "classify ''sync/index.html'' = ''unknown'' \<and>
   classify_spec ''sync/struct.Mutex.html'' = ''struct'' \<and>
   map it_type (searchInCrate_items (ascii_runtime (\<lambda>u. Inr page_index)) ''tokio'' None None None
                  page_index) = [''struct'', ''function'']"
  using classify_order_no_unknown [of "''sync/index.html''"
      "ascii_runtime (\<lambda>u. Inr page_index)" "''tokio''" None None None page_index]
    classify_order_no_unknown [of "''sync/struct.Mutex.html''"
      "ascii_runtime (\<lambda>u. Inr page_index)" "''tokio''" None None None page_index]
  by (simp add: searchInCrate_items_def items_index uniqueItems_def classify_def)

text \<open>
  Claim C10. The patterns are not anchored: a target that contains the characters
  "struct." at any position is classified "struct". The target fn.construct.html
  contains "fn." and is classified "struct", not "function", since "struct." is tested
  first.
\<close>

theorem classify_struct_unanchored:
  "classify (pre @ ''struct.'' @ post) = ''struct'' \<and>
   js_includes ''fn.construct.html'' ''fn.'' \<and>
   classify ''fn.construct.html'' = ''struct''"
proof (intro conjI)
  show "classify (pre @ ''struct.'' @ post) = ''struct''"
    using js_includes_infix [of pre "''struct.''" post] by (simp add: classify_def)
  show "js_includes ''fn.construct.html'' ''fn.''" by simp
  show "classify ''fn.construct.html'' = ''struct''" by (simp add: classify_def)
qed

text \<open>
  Claim C8. For a non-empty type query, the type filter holds exactly when the classified
  type equals the query (exact, case-sensitive comparison) or the lower-cased name
  contains the lower-cased query; a link under such a query is pushed exactly when it is
  a candidate, passes the name filter, is not of type "unknown" and passes that test. An
  empty or absent type query lets every item pass.
\<close>

theorem matchesType_iff:
  "(typeQuery \<noteq> [] \<longrightarrow>
      matchesType rt (Some typeQuery) type itemName =
        (type = typeQuery \<or> js_includes (toLowerCase rt itemName) (toLowerCase rt typeQuery)))
   \<and> (typeQuery \<noteq> [] \<longrightarrow>
      (visit_link rt crate_name query version (Some typeQuery) el items \<noteq> items) =
        (trim rt (elem_text el) \<noteq> [] \<and> or_empty (elem_href el) \<noteq> [] \<and>
         matchesQuery rt query (trim rt (elem_text el)) \<and>
         classify (or_empty (elem_href el)) \<noteq> ''unknown'' \<and>
         (classify (or_empty (elem_href el)) = typeQuery \<or>
          js_includes (toLowerCase rt (trim rt (elem_text el))) (toLowerCase rt typeQuery))))
   \<and> matchesType rt (Some []) type itemName
   \<and> matchesType rt None type itemName"
proof (intro conjI impI)
  assume q: "typeQuery \<noteq> []"
  show "matchesType rt (Some typeQuery) type itemName =
        (type = typeQuery \<or> js_includes (toLowerCase rt itemName) (toLowerCase rt typeQuery))"
    using q by (auto simp: matchesType_def falsy_def or_empty_def)
next
  assume q: "typeQuery \<noteq> []"
  show "(visit_link rt crate_name query version (Some typeQuery) el items \<noteq> items) =
        (trim rt (elem_text el) \<noteq> [] \<and> or_empty (elem_href el) \<noteq> [] \<and>
         matchesQuery rt query (trim rt (elem_text el)) \<and>
         classify (or_empty (elem_href el)) \<noteq> ''unknown'' \<and>
         (classify (or_empty (elem_href el)) = typeQuery \<or>
          js_includes (toLowerCase rt (trim rt (elem_text el))) (toLowerCase rt typeQuery)))"
    proof -
    have or_q: "or_empty (Some typeQuery) = typeQuery" by (simp add: or_empty_def)
    show ?thesis
      using q by (auto simp: visit_link_def Let_def matchesType_def falsy_def or_q)
  qed
next
  show "matchesType rt (Some []) type itemName"
    by (simp add: matchesType_def falsy_def)
next
  show "matchesType rt None type itemName"
    by (simp add: matchesType_def falsy_def)
qed

theorem matchesType_iff_witness:
  "matchesType (ascii_runtime (\<lambda>u. Inr page_index)) (Some ''struct'') ''struct'' ''Mutex'' \<and>
   \<not> matchesType (ascii_runtime (\<lambda>u. Inr page_index)) (Some ''Struct'') ''struct'' ''Mutex'' \<and>
   matchesType (ascii_runtime (\<lambda>u. Inr page_index)) (Some ''MUT'') ''struct'' ''Mutex'' \<and>
   matchesType (ascii_runtime (\<lambda>u. Inr page_index)) None ''struct'' ''Mutex''"
  using matchesType_iff [of "''struct''" "ascii_runtime (\<lambda>u. Inr page_index)" "''struct''" "''Mutex''"]
    matchesType_iff [of "''Struct''" "ascii_runtime (\<lambda>u. Inr page_index)" "''struct''" "''Mutex''"]
    matchesType_iff [of "''MUT''" "ascii_runtime (\<lambda>u. Inr page_index)" "''struct''" "''Mutex''"]
  by (simp add: ascii_runtime_def lower_char_def)

section \<open>Fetch failure\<close>

text \<open>
  Claim C9. When the request of \<^verbatim>\<open>getReadMe\<close> throws, the handler throws an error, not a
  payload, and the message of the error contains the crate name and the word "Failed".
\<close>

theorem getReadMe_fetch_failure:
  "axios_get rt (getReadMe_url crate_name version) = Inl err \<Longrightarrow>
   \<exists>msg. getReadMe rt crate_name version = Inl (Error msg) \<and>
         js_includes msg crate_name \<and> js_includes msg ''Failed''"
proof -
  assume f: "axios_get rt (getReadMe_url crate_name version) = Inl err"
  let ?msg = "''Failed to get README for '' @ crate_name @ '': '' @ err"
  have r: "getReadMe rt crate_name version = Inl (Error ?msg)"
    using f by (simp add: getReadMe_def)
  have c: "js_includes ?msg crate_name"
    using js_includes_infix [of "''Failed to get README for ''" crate_name "'': '' @ err"]
    by simp
  have "js_includes ([] @ ''Failed'' @ ('' to get README for '' @ crate_name @ '': '' @ err))
          ''Failed''"
    by (rule js_includes_infix)
  then have d: "js_includes ?msg ''Failed''" by simp
  from r c d show ?thesis by blast
qed

theorem getReadMe_fetch_failure_witness:
  "getReadMe (ascii_runtime (\<lambda>u. Inl ''AxiosError: Network Error'')) ''serde'' None =
     Inl (Error ''Failed to get README for serde: AxiosError: Network Error'')"
  using getReadMe_fetch_failure [of "ascii_runtime (\<lambda>u. Inl ''AxiosError: Network Error'')"
      "''serde''" None "''AxiosError: Network Error''"]
  by (simp add: getReadMe_def ascii_runtime_def)

end
